theory Spec2Isabelle
  imports Main "HOL-Library.Sublist"
begin

section \<open>rustic.hpp: Option, Result, panic and match\<close>

text \<open>
  A shallow embedding of section 2 (error handling) of \<^verbatim>\<open>rustic.hpp\<close>. A C++ member
  function becomes a HOL function of the object it is called on (\<open>this\<close>). A call that
  does not return normally is a value of the type \<open>fault\<close>; every function that can end
  that way returns a sum \<open>fault + 'r\<close> with \<open>Inl\<close> for the fault. Copy and move
  construction put the same value into the new object, so both are the identity on
  values; the moved-from source object is not tracked.
\<close>

subsection \<open>The standard-library types the header builds on\<close>

text \<open>\<^verbatim>\<open>std::monostate\<close>: a type with a single value.\<close>

datatype monostate = monostate

text \<open>
  \<^verbatim>\<open>std::variant<A, B>\<close> with two alternatives: alternative 0 holds an \<open>A\<close>,
  alternative 1 holds a \<open>B\<close>. \<open>index\<close> is \<^verbatim>\<open>variant::index()\<close>.
\<close>

datatype ('a, 'b) variant = in_place_index_0 'a | in_place_index_1 'b

fun index :: "('a, 'b) variant \<Rightarrow> nat" where
  "index (in_place_index_0 _) = 0"
| "index (in_place_index_1 _) = 1"

text \<open>
  \<^verbatim>\<open>std::holds_alternative<X>(v)\<close>; the first argument is the position of the type
  \<open>X\<close> in the variant's parameter list.
\<close>

definition holds_alternative :: "nat \<Rightarrow> ('a, 'b) variant \<Rightarrow> bool" where
  "holds_alternative i v = (index v = i)"

text \<open>
  The ways a call ends without returning: \<open>aborted txt\<close> is \<^verbatim>\<open>std::abort()\<close> after
  \<open>txt\<close> was written to \<^verbatim>\<open>std::cerr\<close>; \<open>bad_variant_access\<close> is the exception
  \<^verbatim>\<open>std::get\<close> throws when the variant holds the other alternative; \<open>ill_formed\<close> is a
  call expression that no call operator of the callable accepts (the translation unit is
  rejected).
\<close>

datatype fault = aborted string | bad_variant_access | ill_formed

text \<open>What a call that ended wrote to \<^verbatim>\<open>std::cerr\<close>; nothing when it returned.\<close>

fun cerr_of :: "fault + 'x \<Rightarrow> string" where
  "cerr_of (Inl (aborted txt)) = txt"
| "cerr_of (Inl bad_variant_access) = []"
| "cerr_of (Inl ill_formed) = []"
| "cerr_of (Inr _) = []"

definition and_then :: "fault + 'a \<Rightarrow> ('a \<Rightarrow> fault + 'b) \<Rightarrow> fault + 'b" where
  "and_then m k = (case m of Inl f \<Rightarrow> Inl f | Inr x \<Rightarrow> k x)"

text \<open>
  A mutable reference \<^verbatim>\<open>X&\<close> into an enclosing object of type \<open>'o\<close>: \<open>deref\<close> is the
  value read through it, \<open>assign_through r y\<close> is the enclosing object after the
  assignment \<^verbatim>\<open>r = y\<close>. A \<^verbatim>\<open>const X&\<close> only reads, and is modelled by the value read.
  \<open>address_of\<close> is the operator \<^verbatim>\<open>&\<close>.
\<close>

record ('o, 'a) reference =
  deref :: 'a
  assign_through :: "'a \<Rightarrow> 'o"

datatype 'r pointer = address_of 'r

text \<open>The value read through the reference a call returned.\<close>

definition read_through :: "fault + ('o, 'a) reference \<Rightarrow> fault + 'a" where
  "read_through m = and_then m (\<lambda>r. Inr (deref r))"

text \<open>
  \<^verbatim>\<open>std::get<I>(v)\<close> on a mutable variant: a reference to the live alternative, or
  \<^verbatim>\<open>std::bad_variant_access\<close>. Assigning through the reference replaces the payload and
  keeps the alternative.
\<close>

definition std_get_0 :: "('a, 'b) variant \<Rightarrow> fault + (('a, 'b) variant, 'a) reference" where
  "std_get_0 v =
     (case v of
        in_place_index_0 x \<Rightarrow> Inr \<lparr>deref = x, assign_through = in_place_index_0\<rparr>
      | in_place_index_1 _ \<Rightarrow> Inl bad_variant_access)"

definition std_get_1 :: "('a, 'b) variant \<Rightarrow> fault + (('a, 'b) variant, 'b) reference" where
  "std_get_1 v =
     (case v of
        in_place_index_0 _ \<Rightarrow> Inl bad_variant_access
      | in_place_index_1 x \<Rightarrow> Inr \<lparr>deref = x, assign_through = in_place_index_1\<rparr>)"

text \<open>\<^verbatim>\<open>std::get<I>(v)\<close> on a const variant.\<close>

definition std_get_0_const :: "('a, 'b) variant \<Rightarrow> fault + 'a" where
  "std_get_0_const v =
     (case v of in_place_index_0 x \<Rightarrow> Inr x | in_place_index_1 _ \<Rightarrow> Inl bad_variant_access)"

definition std_get_1_const :: "('a, 'b) variant \<Rightarrow> fault + 'b" where
  "std_get_1_const v =
     (case v of in_place_index_0 _ \<Rightarrow> Inl bad_variant_access | in_place_index_1 x \<Rightarrow> Inr x)"

subsection \<open>Unit and the panic handler\<close>

datatype Unit = Unit

text \<open>\<^verbatim>\<open>Unit::operator==\<close> and \<^verbatim>\<open>Unit::operator!=\<close>.\<close>

definition Unit_eq :: "Unit \<Rightarrow> Unit \<Rightarrow> bool" where
  "Unit_eq a b = True"

definition Unit_neq :: "Unit \<Rightarrow> Unit \<Rightarrow> bool" where
  "Unit_neq a b = False"

text \<open>
  \<^verbatim>\<open>rs_panic\<close> writes \<^verbatim>\<open>"[Panic] "\<close>, the message and \<^verbatim>\<open>std::endl\<close> to
  \<^verbatim>\<open>std::cerr\<close>, then calls \<^verbatim>\<open>std::abort()\<close>. Its return type is \<^verbatim>\<open>void\<close>, and it
  never returns. \<open>panic_event msg\<close> is the way a call of \<^verbatim>\<open>rs_panic(msg)\<close> ends.
\<close>

definition panic_event :: "string \<Rightarrow> fault" where
  "panic_event msg = aborted (''[Panic] '' @ msg @ [CHR 0x0A])"

definition rs_panic :: "string \<Rightarrow> fault + unit" where
  "rs_panic msg = Inl (panic_event msg)"

definition panic :: "string \<Rightarrow> fault + unit" where
  "panic msg = rs_panic msg"

subsection \<open>Option\<close>

text \<open>
  \<^verbatim>\<open>class Option\<close> has the single data member
  \<^verbatim>\<open>std::variant<std::monostate, T> value\<close>.
\<close>

datatype 'a Option = Option (value': "(monostate, 'a) variant")

text \<open>A reference into the member \<^verbatim>\<open>value\<close>, seen as a reference into the Option object.\<close>

definition Option_value_ref ::
  "((monostate, 'a) variant, 'x) reference \<Rightarrow> ('a Option, 'x) reference" where
  "Option_value_ref r = \<lparr>deref = deref r, assign_through = (\<lambda>y. Option (assign_through r y))\<rparr>"

text \<open>
  The four constructors: \<^verbatim>\<open>Option()\<close>, \<^verbatim>\<open>Option(std::monostate)\<close>,
  \<^verbatim>\<open>Option(const T&)\<close> and \<^verbatim>\<open>Option(T&&)\<close>.
\<close>

definition Option_default :: "'a Option" where
  "Option_default = Option (in_place_index_0 monostate)"

definition Option_from_monostate :: "monostate \<Rightarrow> 'a Option" where
  "Option_from_monostate m = Option (in_place_index_0 monostate)"

definition Option_copy :: "'a \<Rightarrow> 'a Option" where
  "Option_copy val = Option (in_place_index_1 val)"

definition Option_move :: "'a \<Rightarrow> 'a Option" where
  "Option_move val = Option (in_place_index_1 val)"

text \<open>
  The static members \<^verbatim>\<open>Option<T>::Some(T&&)\<close>, \<^verbatim>\<open>Option<T>::Some(const T&)\<close> and
  \<^verbatim>\<open>Option<T>::None()\<close>.
\<close>

definition Option_Some_move :: "'a \<Rightarrow> 'a Option" where
  "Option_Some_move val = Option_move val"

definition Option_Some_copy :: "'a \<Rightarrow> 'a Option" where
  "Option_Some_copy val = Option_copy val"

definition Option_None :: "'a Option" where
  "Option_None = Option_default"

text \<open>
  The free factories \<^verbatim>\<open>Some(T&& v)\<close>, which forwards \<open>v\<close> to a constructor of
  \<^verbatim>\<open>Option<std::decay_t<T>>\<close> (the copy constructor for an lvalue, the move constructor
  for an rvalue), and \<^verbatim>\<open>None()\<close>, which returns \<^verbatim>\<open>std::monostate{}\<close>.
\<close>

datatype value_category = lvalue | rvalue

definition Some' :: "value_category \<Rightarrow> 'a \<Rightarrow> 'a Option" where
  "Some' c v = (case c of lvalue \<Rightarrow> Option_copy v | rvalue \<Rightarrow> Option_move v)"

definition None' :: monostate where
  "None' = monostate"

definition is_some :: "'a Option \<Rightarrow> bool" where
  "is_some this = holds_alternative 1 (Option.value' this)"

definition is_none :: "'a Option \<Rightarrow> bool" where
  "is_none this = holds_alternative 0 (Option.value' this)"

text \<open>\<^verbatim>\<open>explicit operator bool() const\<close>.\<close>

definition Option_operator_bool :: "'a Option \<Rightarrow> bool" where
  "Option_operator_bool this = is_some this"

text \<open>\<^verbatim>\<open>T& unwrap()\<close> and \<^verbatim>\<open>const T& unwrap() const\<close>.\<close>

definition Option_unwrap :: "'a Option \<Rightarrow> fault + ('a Option, 'a) reference" where
  "Option_unwrap this =
     and_then
       (if is_none this then rs_panic ''called `Option::unwrap()` on a `None` value''
        else Inr ())
       (\<lambda>_. and_then (std_get_1 (Option.value' this)) (\<lambda>r. Inr (Option_value_ref r)))"

definition Option_unwrap_const :: "'a Option \<Rightarrow> fault + 'a" where
  "Option_unwrap_const this =
     and_then
       (if is_none this then rs_panic ''called `Option::unwrap()` on a `None` value''
        else Inr ())
       (\<lambda>_. std_get_1_const (Option.value' this))"

definition Option_expect :: "'a Option \<Rightarrow> string \<Rightarrow> fault + ('a Option, 'a) reference" where
  "Option_expect this msg =
     and_then (if is_none this then rs_panic msg else Inr ())
       (\<lambda>_. and_then (std_get_1 (Option.value' this)) (\<lambda>r. Inr (Option_value_ref r)))"

definition unwrap_or :: "'a Option \<Rightarrow> 'a \<Rightarrow> fault + 'a" where
  "unwrap_or this def = (if is_some this then std_get_1_const (Option.value' this) else Inr def)"

text \<open>
  Pointer semantics: \<^verbatim>\<open>T* operator->()\<close>, \<^verbatim>\<open>const T* operator->() const\<close>,
  \<^verbatim>\<open>T& operator*()\<close> and \<^verbatim>\<open>const T& operator*() const\<close>.
\<close>

definition Option_operator_arrow :: "'a Option \<Rightarrow> fault + ('a Option, 'a) reference pointer" where
  "Option_operator_arrow this = and_then (Option_unwrap this) (\<lambda>r. Inr (address_of r))"

definition Option_operator_arrow_const :: "'a Option \<Rightarrow> fault + 'a pointer" where
  "Option_operator_arrow_const this = and_then (Option_unwrap_const this) (\<lambda>x. Inr (address_of x))"

definition Option_operator_star :: "'a Option \<Rightarrow> fault + ('a Option, 'a) reference" where
  "Option_operator_star this = Option_unwrap this"

definition Option_operator_star_const :: "'a Option \<Rightarrow> fault + 'a" where
  "Option_operator_star_const this = Option_unwrap_const this"

subsection \<open>Callables and Option::match\<close>

text \<open>
  A branch handed to \<^verbatim>\<open>match\<close> is a callable object. Its body may read and write
  whatever it captured (\<^verbatim>\<open>Case\<close> and \<^verbatim>\<open>DefaultCase\<close> capture by reference), so a
  body is a function from the state \<open>'s\<close> it can reach to its return value and the new
  state; bodies that do not return are not modelled. A callable type offers a call operator taking one argument (\<^verbatim>\<open>Case(x)\<close>),
  one taking none (\<^verbatim>\<open>DefaultCase()\<close>), or both; a type with neither cannot be passed
  to \<^verbatim>\<open>match\<close>.
\<close>

datatype ('a, 's, 'r) callable =
    unary "'a \<Rightarrow> 's \<Rightarrow> 'r \<times> 's"
  | nullary "'s \<Rightarrow> 'r \<times> 's"
  | unary_and_nullary "'a \<Rightarrow> 's \<Rightarrow> 'r \<times> 's" "'s \<Rightarrow> 'r \<times> 's"

text \<open>\<^verbatim>\<open>std::is_invocable_v<F, const T&>\<close>.\<close>

fun is_invocable_v :: "('a, 's, 'r) callable \<Rightarrow> bool" where
  "is_invocable_v (unary f) = True"
| "is_invocable_v (nullary g) = False"
| "is_invocable_v (unary_and_nullary f g) = True"

text \<open>\<^verbatim>\<open>std::is_invocable_v<F>\<close>: the callable can be called without arguments.\<close>

fun is_invocable_v_nullary :: "('a, 's, 'r) callable \<Rightarrow> bool" where
  "is_invocable_v_nullary (unary f) = False"
| "is_invocable_v_nullary (nullary g) = True"
| "is_invocable_v_nullary (unary_and_nullary f g) = True"

text \<open>The call expressions \<^verbatim>\<open>f(x)\<close> and \<^verbatim>\<open>f()\<close>.\<close>

fun invoke_1 :: "('a, 's, 'r) callable \<Rightarrow> 'a \<Rightarrow> 's \<Rightarrow> fault + 'r \<times> 's" where
  "invoke_1 (unary f) x s = Inr (f x s)"
| "invoke_1 (nullary g) x s = Inl ill_formed"
| "invoke_1 (unary_and_nullary f g) x s = Inr (f x s)"

fun invoke_0 :: "('a, 's, 'r) callable \<Rightarrow> 's \<Rightarrow> fault + 'r \<times> 's" where
  "invoke_0 (unary f) s = Inl ill_formed"
| "invoke_0 (nullary g) s = Inr (g s)"
| "invoke_0 (unary_and_nullary f g) s = Inr (g s)"

text \<open>
  \<^verbatim>\<open>Option::match\<close> is a member template: for the branch types \<open>F1\<close> and \<open>F2\<close> its
  whole body is instantiated, whatever the state of the object at run time. Only the
  \<^verbatim>\<open>if constexpr\<close> on \<^verbatim>\<open>std::is_invocable_v<F1, const T&>\<close> discards a statement; the
  outer \<^verbatim>\<open>if (is_some())\<close> is a run-time test. So the call of \<open>f_some\<close> that the
  \<^verbatim>\<open>if constexpr\<close> keeps and the call \<^verbatim>\<open>f_none()\<close> must both compile, or no call of
  \<^verbatim>\<open>match\<close> with these branch types exists.
\<close>

definition Option_match_well_formed ::
  "('a, 's, 'r) callable \<Rightarrow> ('b, 's, 'r) callable \<Rightarrow> bool" where
  "Option_match_well_formed f_some f_none =
     ((if is_invocable_v f_some then is_invocable_v f_some else is_invocable_v_nullary f_some)
      \<and> is_invocable_v_nullary f_none)"

definition Option_match ::
  "'a Option \<Rightarrow> ('a, 's, 'r) callable \<Rightarrow> ('b, 's, 'r) callable \<Rightarrow> 's \<Rightarrow> fault + 'r \<times> 's" where
  "Option_match this f_some f_none s =
     (if Option_match_well_formed f_some f_none then
        (if is_some this then
           (if is_invocable_v f_some
            then and_then (std_get_1_const (Option.value' this)) (\<lambda>x. invoke_1 f_some x s)
            else invoke_0 f_some s)
         else invoke_0 f_none s)
      else Inl ill_formed)"

subsection \<open>Result\<close>

text \<open>
  \<^verbatim>\<open>struct OkValue { T value; }\<close> and \<^verbatim>\<open>struct ErrValue { E error; }\<close>;
  \<^verbatim>\<open>class Result\<close> has the single data member \<^verbatim>\<open>std::variant<T, E> value\<close>.
\<close>

datatype 'a OkValue = OkValue (value': 'a)

datatype 'e ErrValue = ErrValue (error: 'e)

datatype ('t, 'e) Result = Result (value': "('t, 'e) variant")

definition Result_value_ref ::
  "(('t, 'e) variant, 'x) reference \<Rightarrow> (('t, 'e) Result, 'x) reference" where
  "Result_value_ref r = \<lparr>deref = deref r, assign_through = (\<lambda>y. Result (assign_through r y))\<rparr>"

text \<open>
  The constructors \<^verbatim>\<open>Result(const T&)\<close>, \<^verbatim>\<open>Result(T&&)\<close>, \<^verbatim>\<open>Result(const E&)\<close> and
  \<^verbatim>\<open>Result(E&&)\<close>.
\<close>

definition Result_copy_T :: "'t \<Rightarrow> ('t, 'e) Result" where
  "Result_copy_T val = Result (in_place_index_0 val)"

definition Result_move_T :: "'t \<Rightarrow> ('t, 'e) Result" where
  "Result_move_T val = Result (in_place_index_0 val)"

definition Result_copy_E :: "'e \<Rightarrow> ('t, 'e) Result" where
  "Result_copy_E err = Result (in_place_index_1 err)"

definition Result_move_E :: "'e \<Rightarrow> ('t, 'e) Result" where
  "Result_move_E err = Result (in_place_index_1 err)"

text \<open>
  The converting constructors \<^verbatim>\<open>Result(OkValue<U>&&)\<close> and \<^verbatim>\<open>Result(ErrValue<U>&&)\<close>.
  The variant constructs its alternative from the moved \<open>U\<close>; the first argument is that
  construction of a \<open>T\<close> (or an \<open>E\<close>) from a \<open>U\<close>, the identity when \<open>U\<close> is the
  alternative's own type.
\<close>

definition Result_from_OkValue :: "('u \<Rightarrow> 't) \<Rightarrow> 'u OkValue \<Rightarrow> ('t, 'e) Result" where
  "Result_from_OkValue construct ok = Result (in_place_index_0 (construct (OkValue.value' ok)))"

definition Result_from_ErrValue :: "('u \<Rightarrow> 'e) \<Rightarrow> 'u ErrValue \<Rightarrow> ('t, 'e) Result" where
  "Result_from_ErrValue construct err = Result (in_place_index_1 (construct (error err)))"

definition is_ok :: "('t, 'e) Result \<Rightarrow> bool" where
  "is_ok this = (index (Result.value' this) = 0)"

definition is_err :: "('t, 'e) Result \<Rightarrow> bool" where
  "is_err this = (index (Result.value' this) = 1)"

definition Result_operator_bool :: "('t, 'e) Result \<Rightarrow> bool" where
  "Result_operator_bool this = is_ok this"

text \<open>\<^verbatim>\<open>T& unwrap()\<close> and \<^verbatim>\<open>const T& unwrap() const\<close>.\<close>

definition Result_unwrap :: "('t, 'e) Result \<Rightarrow> fault + (('t, 'e) Result, 't) reference" where
  "Result_unwrap this =
     and_then
       (if is_err this then rs_panic ''called `Result::unwrap()` on an `Err` value''
        else Inr ())
       (\<lambda>_. and_then (std_get_0 (Result.value' this)) (\<lambda>r. Inr (Result_value_ref r)))"

definition Result_unwrap_const :: "('t, 'e) Result \<Rightarrow> fault + 't" where
  "Result_unwrap_const this =
     and_then
       (if is_err this then rs_panic ''called `Result::unwrap()` on an `Err` value''
        else Inr ())
       (\<lambda>_. std_get_0_const (Result.value' this))"

definition Result_expect ::
  "('t, 'e) Result \<Rightarrow> string \<Rightarrow> fault + (('t, 'e) Result, 't) reference" where
  "Result_expect this msg =
     and_then (if is_err this then rs_panic msg else Inr ())
       (\<lambda>_. and_then (std_get_0 (Result.value' this)) (\<lambda>r. Inr (Result_value_ref r)))"

definition unwrap_err :: "('t, 'e) Result \<Rightarrow> fault + (('t, 'e) Result, 'e) reference" where
  "unwrap_err this =
     and_then
       (if is_ok this then rs_panic ''called `Result::unwrap_err()` on an `Ok` value''
        else Inr ())
       (\<lambda>_. and_then (std_get_1 (Result.value' this)) (\<lambda>r. Inr (Result_value_ref r)))"

definition Result_operator_arrow ::
  "('t, 'e) Result \<Rightarrow> fault + (('t, 'e) Result, 't) reference pointer" where
  "Result_operator_arrow this = and_then (Result_unwrap this) (\<lambda>r. Inr (address_of r))"

definition Result_operator_arrow_const :: "('t, 'e) Result \<Rightarrow> fault + 't pointer" where
  "Result_operator_arrow_const this =
     and_then (Result_unwrap_const this) (\<lambda>x. Inr (address_of x))"

definition Result_operator_star ::
  "('t, 'e) Result \<Rightarrow> fault + (('t, 'e) Result, 't) reference" where
  "Result_operator_star this = Result_unwrap this"

definition Result_operator_star_const :: "('t, 'e) Result \<Rightarrow> fault + 't" where
  "Result_operator_star_const this = Result_unwrap_const this"

text \<open>
  \<^verbatim>\<open>Result::match\<close>: both branches are called with one argument, and both calls are
  instantiated whatever the state, so each branch must accept its payload.
\<close>

definition Result_match_well_formed ::
  "('t, 's, 'r) callable \<Rightarrow> ('e, 's, 'r) callable \<Rightarrow> bool" where
  "Result_match_well_formed f_ok f_err = (is_invocable_v f_ok \<and> is_invocable_v f_err)"

definition Result_match ::
  "('t, 'e) Result \<Rightarrow> ('t, 's, 'r) callable \<Rightarrow> ('e, 's, 'r) callable \<Rightarrow> 's \<Rightarrow> fault + 'r \<times> 's" where
  "Result_match this f_ok f_err s =
     (if Result_match_well_formed f_ok f_err then
        (if is_ok this
         then and_then (std_get_0_const (Result.value' this)) (\<lambda>x. invoke_1 f_ok x s)
         else and_then (std_get_1_const (Result.value' this)) (\<lambda>x. invoke_1 f_err x s))
      else Inl ill_formed)"

text \<open>
  The factories \<^verbatim>\<open>Ok(T&& v)\<close>, \<^verbatim>\<open>Ok()\<close> and \<^verbatim>\<open>Err(E&& e)\<close>: aggregate
  initialisation of the wrapper from the forwarded argument.
\<close>

definition Ok :: "'a \<Rightarrow> 'a OkValue" where
  "Ok v = OkValue v"

definition Ok_Unit :: "Unit OkValue" where
  "Ok_Unit = OkValue Unit"

definition Err :: "'e \<Rightarrow> 'e ErrValue" where
  "Err e = ErrValue e"

subsection \<open>Observing calls and writes\<close>

text \<open>
  To count invocations, a branch is wrapped so that each call of it appends its tag to a
  log kept in the state; the wrapped body otherwise does what the body does.
\<close>

datatype branch = first_branch | second_branch

definition logged_0 ::
  "branch \<Rightarrow> ('s \<Rightarrow> 'r \<times> 's) \<Rightarrow> branch list \<times> 's \<Rightarrow> 'r \<times> (branch list \<times> 's)" where
  "logged_0 b g = (\<lambda>(log, s). (fst (g s), (log @ [b], snd (g s))))"

definition logged_1 ::
  "branch \<Rightarrow> ('a \<Rightarrow> 's \<Rightarrow> 'r \<times> 's) \<Rightarrow> 'a \<Rightarrow> branch list \<times> 's \<Rightarrow> 'r \<times> (branch list \<times> 's)" where
  "logged_1 b f = (\<lambda>x (log, s). (fst (f x s), (log @ [b], snd (f x s))))"

fun logged :: "branch \<Rightarrow> ('a, 's, 'r) callable \<Rightarrow> ('a, branch list \<times> 's, 'r) callable" where
  "logged b (unary f) = unary (logged_1 b f)"
| "logged b (nullary g) = nullary (logged_0 b g)"
| "logged b (unary_and_nullary f g) = unary_and_nullary (logged_1 b f) (logged_0 b g)"

text \<open>The log after a call of \<^verbatim>\<open>match\<close> with wrapped branches.\<close>

definition log_after :: "fault + 'r \<times> (branch list \<times> 's) \<Rightarrow> fault + branch list" where
  "log_after m = and_then m (\<lambda>(r, (log, s)). Inr log)"

text \<open>
  What client code can do to an Option object \<^verbatim>\<open>o\<close> through the public interface:
  call an accessor and use the result for reading only; assign through the mutable
  reference (or pointer) a non-const accessor returned (\<^verbatim>\<open>o.unwrap() = y\<close>,
  \<^verbatim>\<open>*o = y\<close>); or assign a whole Option to it (\<^verbatim>\<open>o = other\<close>, the implicitly
  declared assignment operator). \<open>Option_after st this\<close> is the object once the statement
  has completed. No accessor body assigns to the member \<^verbatim>\<open>value\<close>, so a statement that
  only calls an accessor leaves the object as it was when the call returns.
\<close>

datatype Option_accessor = by_unwrap | by_expect string | by_operator_star | by_operator_arrow

fun Option_mutable_ref ::
  "Option_accessor \<Rightarrow> 'a Option \<Rightarrow> fault + ('a Option, 'a) reference" where
  "Option_mutable_ref by_unwrap this = Option_unwrap this"
| "Option_mutable_ref (by_expect msg) this = Option_expect this msg"
| "Option_mutable_ref by_operator_star this = Option_operator_star this"
| "Option_mutable_ref by_operator_arrow this =
     and_then (Option_operator_arrow this) (\<lambda>p. case p of address_of r \<Rightarrow> Inr r)"

datatype ('a, 'b, 's, 'r) Option_statement =
    call_is_some
  | call_is_none
  | call_operator_bool
  | call_unwrap_or 'a
  | call_unwrap_const
  | call_operator_star_const
  | call_operator_arrow_const
  | call_mutable Option_accessor
  | call_match "('a, 's, 'r) callable" "('b, 's, 'r) callable" 's
  | write_through Option_accessor 'a
  | reassign "'a Option"

definition unchanged_if_returns :: "fault + 'x \<Rightarrow> 'o \<Rightarrow> fault + 'o" where
  "unchanged_if_returns res this = and_then res (\<lambda>_. Inr this)"

fun Option_after :: "('a, 'b, 's, 'r) Option_statement \<Rightarrow> 'a Option \<Rightarrow> fault + 'a Option" where
  "Option_after call_is_some this = unchanged_if_returns (Inr (is_some this)) this"
| "Option_after call_is_none this = unchanged_if_returns (Inr (is_none this)) this"
| "Option_after call_operator_bool this = unchanged_if_returns (Inr (Option_operator_bool this)) this"
| "Option_after (call_unwrap_or d) this = unchanged_if_returns (unwrap_or this d) this"
| "Option_after call_unwrap_const this = unchanged_if_returns (Option_unwrap_const this) this"
| "Option_after call_operator_star_const this =
     unchanged_if_returns (Option_operator_star_const this) this"
| "Option_after call_operator_arrow_const this =
     unchanged_if_returns (Option_operator_arrow_const this) this"
| "Option_after (call_mutable a) this = unchanged_if_returns (Option_mutable_ref a this) this"
| "Option_after (call_match f_some f_none s) this =
     unchanged_if_returns (Option_match this f_some f_none s) this"
| "Option_after (write_through a y) this =
     and_then (Option_mutable_ref a this) (\<lambda>r. Inr (assign_through r y))"
| "Option_after (reassign other) this = Inr other"

fun Option_is_reassign :: "('a, 'b, 's, 'r) Option_statement \<Rightarrow> bool" where
  "Option_is_reassign (reassign other) = True"
| "Option_is_reassign _ = False"

fun Option_is_write_through :: "('a, 'b, 's, 'r) Option_statement \<Rightarrow> bool" where
  "Option_is_write_through (write_through a y) = True"
| "Option_is_write_through _ = False"

text \<open>The same for a Result object; \<^verbatim>\<open>unwrap_err\<close> gives a mutable reference to the error.\<close>

datatype Result_accessor =
  by_Result_unwrap | by_Result_expect string | by_Result_operator_star | by_Result_operator_arrow

fun Result_mutable_ref ::
  "Result_accessor \<Rightarrow> ('t, 'e) Result \<Rightarrow> fault + (('t, 'e) Result, 't) reference" where
  "Result_mutable_ref by_Result_unwrap this = Result_unwrap this"
| "Result_mutable_ref (by_Result_expect msg) this = Result_expect this msg"
| "Result_mutable_ref by_Result_operator_star this = Result_operator_star this"
| "Result_mutable_ref by_Result_operator_arrow this =
     and_then (Result_operator_arrow this) (\<lambda>p. case p of address_of r \<Rightarrow> Inr r)"

datatype ('t, 'e, 's, 'r) Result_statement =
    call_is_ok
  | call_is_err
  | call_Result_operator_bool
  | call_Result_unwrap_const
  | call_Result_operator_star_const
  | call_Result_operator_arrow_const
  | call_Result_mutable Result_accessor
  | call_unwrap_err
  | call_Result_match "('t, 's, 'r) callable" "('e, 's, 'r) callable" 's
  | write_through_T Result_accessor 't
  | write_through_unwrap_err 'e
  | reassign_Result "('t, 'e) Result"

fun Result_after ::
  "('t, 'e, 's, 'r) Result_statement \<Rightarrow> ('t, 'e) Result \<Rightarrow> fault + ('t, 'e) Result" where
  "Result_after call_is_ok this = unchanged_if_returns (Inr (is_ok this)) this"
| "Result_after call_is_err this = unchanged_if_returns (Inr (is_err this)) this"
| "Result_after call_Result_operator_bool this =
     unchanged_if_returns (Inr (Result_operator_bool this)) this"
| "Result_after call_Result_unwrap_const this =
     unchanged_if_returns (Result_unwrap_const this) this"
| "Result_after call_Result_operator_star_const this =
     unchanged_if_returns (Result_operator_star_const this) this"
| "Result_after call_Result_operator_arrow_const this =
     unchanged_if_returns (Result_operator_arrow_const this) this"
| "Result_after (call_Result_mutable a) this =
     unchanged_if_returns (Result_mutable_ref a this) this"
| "Result_after call_unwrap_err this = unchanged_if_returns (unwrap_err this) this"
| "Result_after (call_Result_match f_ok f_err s) this =
     unchanged_if_returns (Result_match this f_ok f_err s) this"
| "Result_after (write_through_T a y) this =
     and_then (Result_mutable_ref a this) (\<lambda>r. Inr (assign_through r y))"
| "Result_after (write_through_unwrap_err y) this =
     and_then (unwrap_err this) (\<lambda>r. Inr (assign_through r y))"
| "Result_after (reassign_Result other) this = Inr other"

fun Result_is_reassign :: "('t, 'e, 's, 'r) Result_statement \<Rightarrow> bool" where
  "Result_is_reassign (reassign_Result other) = True"
| "Result_is_reassign _ = False"

fun Result_is_write_through :: "('t, 'e, 's, 'r) Result_statement \<Rightarrow> bool" where
  "Result_is_write_through (write_through_T a y) = True"
| "Result_is_write_through (write_through_unwrap_err y) = True"
| "Result_is_write_through _ = False"

section \<open>Properties\<close>

subsection \<open>Shared facts\<close>

lemma is_some_Option: "is_some (Option v) = (index v = 1)"
  by (simp add: is_some_def holds_alternative_def)

lemma is_none_Option: "is_none (Option v) = (index v = 0)"
  by (simp add: is_none_def holds_alternative_def)

lemma cerr_of_panic: "cerr_of (Inl (panic_event msg)) = ''[Panic] '' @ msg @ [CHR 0x0A]"
  by (simp add: panic_event_def)

lemma Option_unwrap_absent:
  "Option_unwrap (Option (in_place_index_0 m)) =
     Inl (panic_event ''called `Option::unwrap()` on a `None` value'')"
  by (simp add: Option_unwrap_def is_none_Option and_then_def rs_panic_def)

lemma Option_unwrap_present:
  "Option_unwrap (Option (in_place_index_1 v)) =
     Inr \<lparr>deref = v, assign_through = (\<lambda>y. Option (in_place_index_1 y))\<rparr>"
  by (simp add: Option_unwrap_def is_none_Option and_then_def std_get_1_def Option_value_ref_def)

lemma Option_unwrap_const_absent:
  "Option_unwrap_const (Option (in_place_index_0 m)) =
     Inl (panic_event ''called `Option::unwrap()` on a `None` value'')"
  by (simp add: Option_unwrap_const_def is_none_Option and_then_def rs_panic_def)

lemma Option_unwrap_const_present: "Option_unwrap_const (Option (in_place_index_1 v)) = Inr v"
  by (simp add: Option_unwrap_const_def is_none_Option and_then_def std_get_1_const_def)

lemma Option_expect_absent:
  "Option_expect (Option (in_place_index_0 m)) msg = Inl (panic_event msg)"
  by (simp add: Option_expect_def is_none_Option and_then_def rs_panic_def)

lemma Option_expect_present:
  "Option_expect (Option (in_place_index_1 v)) msg =
     Inr \<lparr>deref = v, assign_through = (\<lambda>y. Option (in_place_index_1 y))\<rparr>"
  by (simp add: Option_expect_def is_none_Option and_then_def std_get_1_def Option_value_ref_def)

lemma is_ok_Result: "is_ok (Result v) = (index v = 0)"
  by (simp add: is_ok_def)

lemma is_err_Result: "is_err (Result v) = (index v = 1)"
  by (simp add: is_err_def)

lemma Result_unwrap_failure:
  "Result_unwrap (Result (in_place_index_1 e)) =
     Inl (panic_event ''called `Result::unwrap()` on an `Err` value'')"
  by (simp add: Result_unwrap_def is_err_Result and_then_def rs_panic_def)

lemma Result_unwrap_success:
  "Result_unwrap (Result (in_place_index_0 v)) =
     Inr \<lparr>deref = v, assign_through = (\<lambda>y. Result (in_place_index_0 y))\<rparr>"
  by (simp add: Result_unwrap_def is_err_Result and_then_def std_get_0_def Result_value_ref_def)

lemma Result_unwrap_const_failure:
  "Result_unwrap_const (Result (in_place_index_1 e)) =
     Inl (panic_event ''called `Result::unwrap()` on an `Err` value'')"
  by (simp add: Result_unwrap_const_def is_err_Result and_then_def rs_panic_def)

lemma Result_unwrap_const_success: "Result_unwrap_const (Result (in_place_index_0 v)) = Inr v"
  by (simp add: Result_unwrap_const_def is_err_Result and_then_def std_get_0_const_def)

lemma Result_expect_failure:
  "Result_expect (Result (in_place_index_1 e)) msg = Inl (panic_event msg)"
  by (simp add: Result_expect_def is_err_Result and_then_def rs_panic_def)

lemma Result_expect_success:
  "Result_expect (Result (in_place_index_0 v)) msg =
     Inr \<lparr>deref = v, assign_through = (\<lambda>y. Result (in_place_index_0 y))\<rparr>"
  by (simp add: Result_expect_def is_err_Result and_then_def std_get_0_def Result_value_ref_def)

lemma unwrap_err_success:
  "unwrap_err (Result (in_place_index_0 v)) =
     Inl (panic_event ''called `Result::unwrap_err()` on an `Ok` value'')"
  by (simp add: unwrap_err_def is_ok_Result and_then_def rs_panic_def)

lemma unwrap_err_failure:
  "unwrap_err (Result (in_place_index_1 e)) =
     Inr \<lparr>deref = e, assign_through = (\<lambda>y. Result (in_place_index_1 y))\<rparr>"
  by (simp add: unwrap_err_def is_ok_Result and_then_def std_get_1_def Result_value_ref_def)

lemma read_through_Inr: "read_through (Inr r) = Inr (deref r)"
  by (simp add: read_through_def and_then_def)

lemma Result_from_OkValue_general:
  "Result_from_OkValue construct (Ok v) = Result (in_place_index_0 (construct v))"
  by (simp add: Result_from_OkValue_def Ok_def)

lemma Result_from_ErrValue_general:
  "Result_from_ErrValue construct (Err e) = Result (in_place_index_1 (construct e))"
  by (simp add: Result_from_ErrValue_def Err_def)

lemma Option_present_forms:
  "Option_copy v = Option (in_place_index_1 v)"
  "Option_move v = Option (in_place_index_1 v)"
  "Option_Some_copy v = Option (in_place_index_1 v)"
  "Option_Some_move v = Option (in_place_index_1 v)"
  "Some' c v = Option (in_place_index_1 v)"
  by (simp_all add: Option_copy_def Option_move_def Option_Some_copy_def Option_Some_move_def
      Some'_def split: value_category.split)

lemma Option_absent_forms:
  "Option_default = Option (in_place_index_0 monostate)"
  "Option_None = Option (in_place_index_0 monostate)"
  "Option_from_monostate m = Option (in_place_index_0 monostate)"
  by (simp_all add: Option_default_def Option_None_def Option_from_monostate_def)

lemma Option_match_well_formed_iff:
  "Option_match_well_formed f_some f_none = is_invocable_v_nullary f_none"
  by (cases f_some) (simp_all add: Option_match_well_formed_def)

lemma invoke_0_not_invocable: "\<not> is_invocable_v_nullary F \<Longrightarrow> invoke_0 F s = Inl ill_formed"
  by (cases F) simp_all

lemma Option_match_present:
  "Option_match (Option (in_place_index_1 v)) f_some f_none s =
     (if is_invocable_v_nullary f_none
      then (if is_invocable_v f_some then invoke_1 f_some v s else invoke_0 f_some s)
      else Inl ill_formed)"
  by (simp add: Option_match_def Option_match_well_formed_iff is_some_Option std_get_1_const_def
      and_then_def)

lemma Option_match_absent:
  "Option_match (Option (in_place_index_0 m)) f_some f_none s = invoke_0 f_none s"
  by (simp add: Option_match_def Option_match_well_formed_iff is_some_Option
      invoke_0_not_invocable)

lemma Result_match_success:
  "Result_match (Result (in_place_index_0 v)) f_ok f_err s =
     (if is_invocable_v f_ok \<and> is_invocable_v f_err then invoke_1 f_ok v s else Inl ill_formed)"
  by (simp add: Result_match_def Result_match_well_formed_def is_ok_Result std_get_0_const_def
      and_then_def)

lemma Result_match_failure:
  "Result_match (Result (in_place_index_1 e)) f_ok f_err s =
     (if is_invocable_v f_ok \<and> is_invocable_v f_err then invoke_1 f_err e s else Inl ill_formed)"
  by (simp add: Result_match_def Result_match_well_formed_def is_ok_Result std_get_1_const_def
      and_then_def)

lemma is_invocable_v_logged: "is_invocable_v (logged b F) = is_invocable_v F"
  by (cases F) simp_all

lemma is_invocable_v_nullary_logged:
  "is_invocable_v_nullary (logged b F) = is_invocable_v_nullary F"
  by (cases F) simp_all

lemma log_after_fault: "log_after (Inl f) = Inl f"
  by (simp add: log_after_def and_then_def)

lemma log_after_invoke_some:
  "log_after (if is_invocable_v (logged b F) then invoke_1 (logged b F) x (log, s)
              else invoke_0 (logged b F) (log, s)) = Inr (log @ [b])"
  by (cases F) (simp_all add: log_after_def and_then_def logged_1_def logged_0_def)

lemma log_after_Option_match_present:
  "log_after (Option_match (Option (in_place_index_1 v))
       (logged first_branch f_some) (logged second_branch f_none) (log, s)) =
     (if is_invocable_v_nullary f_none then Inr (log @ [first_branch]) else Inl ill_formed)"
  by (simp add: Option_match_present is_invocable_v_nullary_logged log_after_invoke_some
      log_after_fault del: logged.simps)

lemma log_after_Option_match_absent:
  "log_after (Option_match (Option (in_place_index_0 m))
       (logged first_branch f_some) (logged second_branch f_none) (log, s)) =
     (if is_invocable_v_nullary f_none then Inr (log @ [second_branch]) else Inl ill_formed)"
  by (cases f_none) (simp_all add: Option_match_absent log_after_def and_then_def logged_0_def)

lemma log_after_invoke_1:
  "log_after (invoke_1 (logged b F) x (log, s)) =
     (if is_invocable_v F then Inr (log @ [b]) else Inl ill_formed)"
  by (cases F) (simp_all add: log_after_def and_then_def logged_1_def)

lemma log_after_invoke_0:
  "log_after (invoke_0 (logged b F) (log, s)) =
     (case F of unary f \<Rightarrow> Inl ill_formed | nullary g \<Rightarrow> Inr (log @ [b])
      | unary_and_nullary f g \<Rightarrow> Inr (log @ [b]))"
  by (cases F) (simp_all add: log_after_def and_then_def logged_0_def)

lemma log_after_Result_match_success:
  "log_after (Result_match (Result (in_place_index_0 x))
       (logged first_branch f_ok) (logged second_branch f_err) (log, s)) =
     (if is_invocable_v f_ok \<and> is_invocable_v f_err
      then Inr (log @ [first_branch]) else Inl ill_formed)"
  by (simp add: Result_match_success is_invocable_v_logged log_after_invoke_1 log_after_fault
      del: logged.simps)

lemma log_after_Result_match_failure:
  "log_after (Result_match (Result (in_place_index_1 e))
       (logged first_branch f_ok) (logged second_branch f_err) (log, s)) =
     (if is_invocable_v f_ok \<and> is_invocable_v f_err
      then Inr (log @ [second_branch]) else Inl ill_formed)"
  by (simp add: Result_match_failure is_invocable_v_logged log_after_invoke_1 log_after_fault
      del: logged.simps)

lemma Option_operator_arrow_eq:
  "Option_operator_arrow this = map_sum (\<lambda>f. f) address_of (Option_unwrap this)"
  by (cases "Option_unwrap this") (simp_all add: Option_operator_arrow_def and_then_def)

lemma Option_operator_arrow_const_eq:
  "Option_operator_arrow_const this = map_sum (\<lambda>f. f) address_of (Option_unwrap_const this)"
  by (cases "Option_unwrap_const this") (simp_all add: Option_operator_arrow_const_def and_then_def)

lemma Result_operator_arrow_eq:
  "Result_operator_arrow this = map_sum (\<lambda>f. f) address_of (Result_unwrap this)"
  by (cases "Result_unwrap this") (simp_all add: Result_operator_arrow_def and_then_def)

lemma Result_operator_arrow_const_eq:
  "Result_operator_arrow_const this = map_sum (\<lambda>f. f) address_of (Result_unwrap_const this)"
  by (cases "Result_unwrap_const this") (simp_all add: Result_operator_arrow_const_def and_then_def)

lemma no_absent_in_Option_unwrap_text:
  "\<not> sublist ''absent'' (''[Panic] '' @ ''called `Option::unwrap()` on a `None` value'' @ [CHR 0x0A])"
  by code_simp

lemma Option_mutable_ref_present:
  "Option_mutable_ref a (Option (in_place_index_1 v)) =
     Inr \<lparr>deref = v, assign_through = (\<lambda>y. Option (in_place_index_1 y))\<rparr>"
  by (cases a)
    (simp_all add: Option_unwrap_present Option_expect_present Option_operator_star_def
      Option_operator_arrow_def and_then_def)

lemma Option_mutable_ref_absent:
  "Option_mutable_ref a (Option (in_place_index_0 m)) =
     Inl (panic_event (case a of by_expect msg \<Rightarrow> msg
                       | _ \<Rightarrow> ''called `Option::unwrap()` on a `None` value''))"
  by (cases a)
    (simp_all add: Option_unwrap_absent Option_expect_absent Option_operator_star_def
      Option_operator_arrow_def and_then_def)

lemma Result_mutable_ref_success:
  "Result_mutable_ref a (Result (in_place_index_0 v)) =
     Inr \<lparr>deref = v, assign_through = (\<lambda>y. Result (in_place_index_0 y))\<rparr>"
  by (cases a)
    (simp_all add: Result_unwrap_success Result_expect_success Result_operator_star_def
      Result_operator_arrow_def and_then_def)

lemma Result_mutable_ref_failure:
  "Result_mutable_ref a (Result (in_place_index_1 e)) =
     Inl (panic_event (case a of by_Result_expect msg \<Rightarrow> msg
                       | _ \<Rightarrow> ''called `Result::unwrap()` on an `Err` value''))"
  by (cases a)
    (simp_all add: Result_unwrap_failure Result_expect_failure Result_operator_star_def
      Result_operator_arrow_def and_then_def)

lemma unchanged_if_returns_Inr: "unchanged_if_returns res this = Inr this' \<Longrightarrow> this' = this"
  by (cases res) (simp_all add: unchanged_if_returns_def and_then_def)

lemma Option_after_frame:
  assumes "Option_after st this = Inr this'" and "\<not> Option_is_reassign st"
  shows "is_some this' = is_some this"
    and "\<not> Option_is_write_through st \<Longrightarrow> this' = this"
proof -
  obtain var where obj: "this = Option var" by (cases this)
  show "is_some this' = is_some this"
  proof (cases st)
    case (write_through a y)
    show ?thesis
    proof (cases var)
      case (in_place_index_0 m)
      with assms write_through obj show ?thesis
        by (simp add: Option_mutable_ref_absent and_then_def)
    next
      case (in_place_index_1 v)
      with assms write_through obj show ?thesis
        by (auto simp add: Option_mutable_ref_present and_then_def is_some_Option)
    qed
  next
    case (reassign other)
    with assms show ?thesis by simp
  qed (use assms in \<open>auto dest: unchanged_if_returns_Inr\<close>)
  show "\<not> Option_is_write_through st \<Longrightarrow> this' = this"
    using assms by (cases st) (auto dest: unchanged_if_returns_Inr)
qed

lemma Result_after_frame:
  assumes "Result_after st this = Inr this'" and "\<not> Result_is_reassign st"
  shows "is_ok this' = is_ok this"
    and "\<not> Result_is_write_through st \<Longrightarrow> this' = this"
proof -
  obtain var where obj: "this = Result var" by (cases this)
  show "is_ok this' = is_ok this"
  proof (cases st)
    case (write_through_T a y)
    show ?thesis
    proof (cases var)
      case (in_place_index_0 v)
      with assms write_through_T obj show ?thesis
        by (auto simp add: Result_mutable_ref_success and_then_def is_ok_Result)
    next
      case (in_place_index_1 e)
      with assms write_through_T obj show ?thesis
        by (simp add: Result_mutable_ref_failure and_then_def)
    qed
  next
    case (write_through_unwrap_err y)
    show ?thesis
    proof (cases var)
      case (in_place_index_0 v)
      with assms write_through_unwrap_err obj show ?thesis
        by (simp add: unwrap_err_success and_then_def)
    next
      case (in_place_index_1 e)
      with assms write_through_unwrap_err obj show ?thesis
        by (auto simp add: unwrap_err_failure and_then_def is_ok_Result)
    qed
  next
    case (reassign_Result other)
    with assms show ?thesis by simp
  qed (use assms in \<open>auto dest: unchanged_if_returns_Inr\<close>)
  show "\<not> Result_is_write_through st \<Longrightarrow> this' = this"
    using assms by (cases st) (auto dest: unchanged_if_returns_Inr)
qed

subsection \<open>Panicking accessors\<close>

text \<open>
  Claim C1 as stated fails on the message. The claim gives the message of the Panic
  event as \<^verbatim>\<open>called unwrap on an absent value\<close> and says the diagnostic contains the
  text \<^verbatim>\<open>absent\<close>. \<^verbatim>\<open>Option::unwrap\<close> on \<^verbatim>\<open>Option<T>::None()\<close> ends in a different
  Panic event, and what it wrote to \<^verbatim>\<open>std::cerr\<close> does not contain \<^verbatim>\<open>absent\<close>.
\<close>

theorem Option_unwrap_message_counterexample:
  "Option_unwrap (Option_None :: unit Option) \<noteq>
     Inl (panic_event ''called unwrap on an absent value'')
   \<and> \<not> sublist ''absent'' (cerr_of (Option_unwrap (Option_None :: unit Option)))"
  using no_absent_in_Option_unwrap_text
  by (simp add: Option_absent_forms Option_unwrap_absent panic_event_def)

text \<open>
  Claim C1, amended. For every payload type, \<^verbatim>\<open>unwrap()\<close> (either overload) on an
  Option holding \<^verbatim>\<open>std::monostate\<close> ends in the Panic event with the message
  \<^verbatim>\<open>called `Option::unwrap()` on a `None` value\<close>: \<^verbatim>\<open>std::cerr\<close> receives
  \<^verbatim>\<open>[Panic] \<close>, that message and a newline, and no value is returned. On an Option
  holding a value \<open>v\<close> it returns a reference through which \<open>v\<close> is read.
\<close>

theorem Option_unwrap_panics_or_returns_held_value:
  "Option_unwrap (Option (in_place_index_0 m) :: 'a Option) =
     Inl (panic_event ''called `Option::unwrap()` on a `None` value'')
   \<and> Option_unwrap_const (Option (in_place_index_0 m) :: 'a Option) =
     Inl (panic_event ''called `Option::unwrap()` on a `None` value'')
   \<and> cerr_of (Option_unwrap (Option (in_place_index_0 m) :: 'a Option)) =
     ''[Panic] called `Option::unwrap()` on a `None` value'' @ [CHR 0x0A]
   \<and> read_through (Option_unwrap (Option (in_place_index_1 (v :: 'a)))) = Inr v
   \<and> Option_unwrap_const (Option (in_place_index_1 v)) = Inr v"
  by (simp add: Option_unwrap_absent Option_unwrap_const_absent Option_unwrap_present
      Option_unwrap_const_present cerr_of_panic read_through_Inr)

text \<open>
  Claim C2 as stated fails on the messages. The claim gives
  \<^verbatim>\<open>called unwrap on a failure value\<close> for \<^verbatim>\<open>unwrap()\<close> on a failure and
  \<^verbatim>\<open>called unwrap_err on a success value\<close> for \<^verbatim>\<open>unwrap_err()\<close> on a success; the
  code ends in Panic events with other messages.
\<close>

theorem Result_unwrap_message_counterexample:
  "Result_unwrap (Result_copy_E ''divide by zero'' :: (int, string) Result) \<noteq>
     Inl (panic_event ''called unwrap on a failure value'')
   \<and> unwrap_err (Result_copy_T 5 :: (int, string) Result) \<noteq>
     Inl (panic_event ''called unwrap_err on a success value'')"
  by (simp add: Result_copy_E_def Result_copy_T_def Result_unwrap_failure unwrap_err_success
      panic_event_def)

text \<open>
  Claim C2, amended. \<^verbatim>\<open>Result::unwrap()\<close> (either overload) on a Result holding an
  error ends in the Panic event with the message
  \<^verbatim>\<open>called `Result::unwrap()` on an `Err` value\<close> and returns nothing;
  \<^verbatim>\<open>Result::unwrap_err()\<close> on a Result holding a success value ends in the Panic event
  with the message \<^verbatim>\<open>called `Result::unwrap_err()` on an `Ok` value\<close> and returns
  nothing. On the matching state each returns a reference through which the live payload
  is read.
\<close>

theorem Result_unwrap_and_unwrap_err_panic_or_return_payload:
  "Result_unwrap (Result (in_place_index_1 e) :: ('t, 'e) Result) =
     Inl (panic_event ''called `Result::unwrap()` on an `Err` value'')
   \<and> Result_unwrap_const (Result (in_place_index_1 e) :: ('t, 'e) Result) =
     Inl (panic_event ''called `Result::unwrap()` on an `Err` value'')
   \<and> unwrap_err (Result (in_place_index_0 v) :: ('t, 'e) Result) =
     Inl (panic_event ''called `Result::unwrap_err()` on an `Ok` value'')
   \<and> read_through (Result_unwrap (Result (in_place_index_0 v) :: ('t, 'e) Result)) = Inr v
   \<and> Result_unwrap_const (Result (in_place_index_0 v) :: ('t, 'e) Result) = Inr v
   \<and> read_through (unwrap_err (Result (in_place_index_1 e) :: ('t, 'e) Result)) = Inr e"
  by (simp add: Result_unwrap_failure Result_unwrap_const_failure unwrap_err_success
      Result_unwrap_success Result_unwrap_const_success unwrap_err_failure read_through_Inr)

subsection \<open>Construction and round trips\<close>

text \<open>
  Claim C3. For every \<open>v\<close> and \<open>e\<close>: \<^verbatim>\<open>Ok(v)\<close> converted into a
  \<^verbatim>\<open>Result<T, E>\<close> (for any \<open>E\<close>) is a Result with \<^verbatim>\<open>is_ok()\<close> true whose
  \<^verbatim>\<open>unwrap()\<close> reads \<open>v\<close>; \<^verbatim>\<open>Err(e)\<close> converted into a \<^verbatim>\<open>Result<T, E>\<close> (for any
  \<open>T\<close>) is a Result with \<^verbatim>\<open>is_err()\<close> true whose \<^verbatim>\<open>unwrap_err()\<close> reads \<open>e\<close>. The
  wrapper holds a value of the alternative's own type, so the variant's construction of
  the alternative is the identity.
\<close>

theorem Ok_and_Err_convert_into_Result:
  "is_ok (Result_from_OkValue (\<lambda>x. x) (Ok v) :: ('t, 'e) Result)
   \<and> read_through (Result_unwrap (Result_from_OkValue (\<lambda>x. x) (Ok v) :: ('t, 'e) Result)) = Inr v
   \<and> Result_unwrap_const (Result_from_OkValue (\<lambda>x. x) (Ok v) :: ('t, 'e) Result) = Inr v
   \<and> is_err (Result_from_ErrValue (\<lambda>x. x) (Err e) :: ('t, 'e) Result)
   \<and> read_through (unwrap_err (Result_from_ErrValue (\<lambda>x. x) (Err e) :: ('t, 'e) Result)) = Inr e"
  by (simp add: Result_from_OkValue_general Result_from_ErrValue_general is_ok_Result
      is_err_Result Result_unwrap_success Result_unwrap_const_success unwrap_err_failure
      read_through_Inr)

text \<open>
  Claim C4. For every \<open>v\<close>: \<^verbatim>\<open>Some(v)\<close> (the static members and the free factory,
  by copy or by move) is an Option with \<^verbatim>\<open>is_some()\<close> true and \<^verbatim>\<open>is_none()\<close> false
  whose \<^verbatim>\<open>unwrap()\<close> reads \<open>v\<close>; \<^verbatim>\<open>None()\<close> (the static member, and the free
  factory's tag converted into an Option) is an Option with \<^verbatim>\<open>is_none()\<close> true.
\<close>

theorem Some_and_None_round_trip:
  "is_some (Option_Some_copy v) \<and> \<not> is_none (Option_Some_copy v)
   \<and> read_through (Option_unwrap (Option_Some_copy v)) = Inr v
   \<and> Option_unwrap_const (Option_Some_copy v) = Inr v
   \<and> is_some (Option_Some_move v) \<and> \<not> is_none (Option_Some_move v)
   \<and> read_through (Option_unwrap (Option_Some_move v)) = Inr v
   \<and> Option_unwrap_const (Option_Some_move v) = Inr v
   \<and> is_some (Some' c v) \<and> \<not> is_none (Some' c v)
   \<and> read_through (Option_unwrap (Some' c v)) = Inr v
   \<and> Option_unwrap_const (Some' c v) = Inr v
   \<and> is_none (Option_None :: 'a Option)
   \<and> is_none (Option_from_monostate None' :: 'a Option)"
  by (simp add: Option_present_forms Option_absent_forms is_some_Option is_none_Option
      Option_unwrap_present Option_unwrap_const_present read_through_Inr)

text \<open>
  Claim C10. An Option is constructed from a plain value by \<^verbatim>\<open>Option(const T&)\<close> or
  \<^verbatim>\<open>Option(T&&)\<close>, neither marked explicit, and then holds that value. The free factory
  \<^verbatim>\<open>None()\<close> returns a \<^verbatim>\<open>std::monostate\<close>, a type without a type parameter, which
  \<^verbatim>\<open>Option(std::monostate)\<close> turns into an Option of any payload type holding no value;
  so does the default constructor. For each constructor the resulting state is the same
  whatever the argument.
\<close>

theorem Option_construction_paths:
  "is_some (Option_copy v) \<and> Option_unwrap_const (Option_copy v) = Inr v
   \<and> read_through (Option_unwrap (Option_copy v)) = Inr v
   \<and> is_some (Option_move v) \<and> Option_unwrap_const (Option_move v) = Inr v
   \<and> read_through (Option_unwrap (Option_move v)) = Inr v
   \<and> is_none (Option_from_monostate None' :: 'a Option)
   \<and> \<not> is_some (Option_from_monostate None' :: 'a Option)
   \<and> is_none (Option_default :: 'a Option)
   \<and> is_some (Option_copy v) = is_some (Option_copy w)
   \<and> is_some (Option_move v) = is_some (Option_move w)
   \<and> is_some (Option_from_monostate m :: 'a Option) = is_some (Option_from_monostate m' :: 'a Option)"
  by (simp add: Option_present_forms Option_absent_forms is_some_Option is_none_Option
      Option_unwrap_present Option_unwrap_const_present read_through_Inr)

subsection \<open>Accessors that do not panic\<close>

text \<open>
  Claim C7. For every \<open>v\<close> and every default \<open>d\<close>: \<^verbatim>\<open>Some(v).unwrap_or(d)\<close> returns
  \<open>v\<close> and \<^verbatim>\<open>None().unwrap_or(d)\<close> returns \<open>d\<close>; on every Option \<^verbatim>\<open>unwrap_or\<close>
  returns a value, so it neither panics nor throws.
\<close>

theorem unwrap_or_returns_value_or_default:
  "unwrap_or (Option_Some_copy v) d = Inr v
   \<and> unwrap_or (Option_Some_move v) d = Inr v
   \<and> unwrap_or (Some' c v) d = Inr v
   \<and> unwrap_or Option_None d = Inr d
   \<and> unwrap_or (Option_from_monostate None') d = Inr d
   \<and> unwrap_or this d =
       Inr (case Option.value' this of in_place_index_0 m \<Rightarrow> d | in_place_index_1 x \<Rightarrow> x)"
proof -
  have "unwrap_or this d =
       Inr (case Option.value' this of in_place_index_0 m \<Rightarrow> d | in_place_index_1 x \<Rightarrow> x)"
    by (cases this; cases "Option.value' this")
      (simp_all add: unwrap_or_def is_some_Option std_get_1_const_def)
  moreover have "unwrap_or (Option (in_place_index_1 v)) d = Inr v"
    by (simp add: unwrap_or_def is_some_Option std_get_1_const_def)
  moreover have "unwrap_or (Option (in_place_index_0 monostate)) d = Inr d"
    by (simp add: unwrap_or_def is_some_Option)
  ultimately show ?thesis
    by (simp only: Option_present_forms Option_absent_forms simp_thms)
qed

text \<open>
  Claim C8. On every Option and every Result, \<^verbatim>\<open>operator*\<close> ends exactly as
  \<^verbatim>\<open>unwrap()\<close> does: the same reference when a value is held, the same Panic event
  otherwise. \<^verbatim>\<open>operator->\<close> returns the address of the reference \<^verbatim>\<open>unwrap()\<close>
  returns, and ends in the same Panic event when \<^verbatim>\<open>unwrap()\<close> does. This holds for
  the const and the non-const overloads.
\<close>

theorem dereference_is_unwrap:
  "Option_operator_star this = Option_unwrap this
   \<and> Option_operator_star_const this = Option_unwrap_const this
   \<and> Option_operator_arrow this = map_sum (\<lambda>f. f) address_of (Option_unwrap this)
   \<and> Option_operator_arrow_const this = map_sum (\<lambda>f. f) address_of (Option_unwrap_const this)
   \<and> Result_operator_star rthis = Result_unwrap rthis
   \<and> Result_operator_star_const rthis = Result_unwrap_const rthis
   \<and> Result_operator_arrow rthis = map_sum (\<lambda>f. f) address_of (Result_unwrap rthis)
   \<and> Result_operator_arrow_const rthis = map_sum (\<lambda>f. f) address_of (Result_unwrap_const rthis)"
  by (simp add: Option_operator_star_def Option_operator_star_const_def Option_operator_arrow_eq
      Option_operator_arrow_const_eq Result_operator_star_def Result_operator_star_const_def
      Result_operator_arrow_eq Result_operator_arrow_const_eq)

subsection \<open>Match\<close>

text \<open>
  Claim C5. With each branch wrapped so that its calls are logged, and for branch types
  with which the call of \<^verbatim>\<open>match\<close> compiles: \<^verbatim>\<open>Option::match\<close> on an Option holding
  a value appends exactly one entry to the log, for the first branch; on an Option
  holding no value it appends exactly one entry, for the second branch.
  \<^verbatim>\<open>Result::match\<close> appends exactly one entry, for the first branch on a success and
  for the second on a failure. The call compiles when the second branch of
  \<^verbatim>\<open>Option::match\<close> can be called without arguments, and when both branches of
  \<^verbatim>\<open>Result::match\<close> accept their payload; with other branch types there is no call in
  either state. The last four conjuncts are the branches the header's own
  \<^verbatim>\<open>Case\<close> and \<^verbatim>\<open>DefaultCase\<close> produce.
\<close>

theorem match_invokes_exactly_the_live_branch_once:
  "log_after (Option_match (Option (in_place_index_1 v))
       (logged first_branch f_some) (logged second_branch f_none) (log, s)) =
     (if is_invocable_v_nullary f_none then Inr (log @ [first_branch]) else Inl ill_formed)
   \<and> log_after (Option_match (Option (in_place_index_0 m))
       (logged first_branch f_some) (logged second_branch f_none) (log, s)) =
     (if is_invocable_v_nullary f_none then Inr (log @ [second_branch]) else Inl ill_formed)
   \<and> log_after (Result_match (Result (in_place_index_0 x))
       (logged first_branch f_ok) (logged second_branch f_err) (log, s)) =
     (if is_invocable_v f_ok \<and> is_invocable_v f_err
      then Inr (log @ [first_branch]) else Inl ill_formed)
   \<and> log_after (Result_match (Result (in_place_index_1 e))
       (logged first_branch f_ok) (logged second_branch f_err) (log, s)) =
     (if is_invocable_v f_ok \<and> is_invocable_v f_err
      then Inr (log @ [second_branch]) else Inl ill_formed)
   \<and> log_after (Option_match (Option (in_place_index_1 v))
       (logged first_branch f_some) (logged second_branch (nullary g)) (log, s)) =
     Inr (log @ [first_branch])
   \<and> log_after (Option_match (Option (in_place_index_0 m))
       (logged first_branch f_some) (logged second_branch (nullary g)) (log, s)) =
     Inr (log @ [second_branch])
   \<and> log_after (Result_match (Result (in_place_index_0 x))
       (logged first_branch (unary h)) (logged second_branch (unary h')) (log, s)) =
     Inr (log @ [first_branch])
   \<and> log_after (Result_match (Result (in_place_index_1 e))
       (logged first_branch (unary h)) (logged second_branch (unary h')) (log, s)) =
     Inr (log @ [second_branch])"
  by (simp add: log_after_Option_match_present log_after_Option_match_absent
      log_after_Result_match_success log_after_Result_match_failure del: logged.simps)

text \<open>
  Claim C6. For branch types with which the call compiles (the second branch can be
  called without arguments), \<^verbatim>\<open>Option::match\<close> on an Option holding \<open>v\<close> calls the
  first branch with \<open>v\<close> when \<^verbatim>\<open>std::is_invocable_v<F1, const T&>\<close> holds and without
  arguments otherwise; on an Option holding no value it calls the second branch without
  arguments. In every case it returns what the invoked branch returns, and the state the
  branch leaves. With a second branch that cannot be called without arguments there is no
  call, in either state.
\<close>

theorem Option_match_protocol:
  "Option_match (Option (in_place_index_1 v)) f_some f_none s =
     (if is_invocable_v_nullary f_none
      then (if is_invocable_v f_some then invoke_1 f_some v s else invoke_0 f_some s)
      else Inl ill_formed)
   \<and> Option_match (Option (in_place_index_0 m)) f_some f_none s =
     (if is_invocable_v_nullary f_none then invoke_0 f_none s else Inl ill_formed)
   \<and> Option_match (Option (in_place_index_1 v)) (unary f) f_none s =
     (if is_invocable_v_nullary f_none then Inr (f v s) else Inl ill_formed)
   \<and> Option_match (Option (in_place_index_1 v)) (nullary g) f_none s =
     (if is_invocable_v_nullary f_none then Inr (g s) else Inl ill_formed)
   \<and> Option_match (Option (in_place_index_1 v)) (unary_and_nullary f g) f_none s =
     (if is_invocable_v_nullary f_none then Inr (f v s) else Inl ill_formed)
   \<and> Option_match (Option (in_place_index_0 m)) f_some (nullary g') s = Inr (g' s)
   \<and> Option_match (Option (in_place_index_0 m)) f_some (unary_and_nullary f' g') s = Inr (g' s)
   \<and> Option_match (Option (in_place_index_1 v)) (unary f) (nullary g') s = Inr (f v s)
   \<and> Option_match (Option (in_place_index_1 v)) (nullary g) (nullary g') s = Inr (g s)"
  by (simp add: Option_match_present Option_match_absent invoke_0_not_invocable)

subsection \<open>What changes a container\<close>

text \<open>
  Claim C9 as stated fails for the payload. The claim says that state and payload change
  only through whole-container reassignment. The non-const \<^verbatim>\<open>unwrap()\<close> returns a
  \<^verbatim>\<open>T&\<close> into the container: the statement \<^verbatim>\<open>o.unwrap() = 7\<close> on an Option holding
  1 is no reassignment of the container, and leaves it holding 7.
\<close>

theorem payload_write_counterexample:
  "\<not> Option_is_reassign (write_through by_unwrap (7::nat) :: (nat, unit, unit, unit) Option_statement)
   \<and> Option_after (write_through by_unwrap (7::nat) :: (nat, unit, unit, unit) Option_statement)
       (Option_Some_copy 1) = Inr (Option_Some_copy 7)
   \<and> Option_Some_copy (7::nat) \<noteq> Option_Some_copy 1"
  by (simp add: Option_present_forms Option_unwrap_present and_then_def)

text \<open>
  Claim C9, amended. A statement that is not a whole-container reassignment never changes
  which alternative is live (\<^verbatim>\<open>is_some()\<close>, \<^verbatim>\<open>is_ok()\<close>); and unless it assigns
  through a mutable reference or pointer that a non-const accessor returned, it leaves
  the whole container, state and payload, as it was. The statements covered are calls of
  every query and accessor of both classes, \<^verbatim>\<open>match\<close> included (with branches that do
  not write to the container themselves).
\<close>

theorem state_changes_only_by_reassignment:
  "(Option_after st this = Inr this' \<and> \<not> Option_is_reassign st \<longrightarrow>
      is_some this' = is_some this \<and> (\<not> Option_is_write_through st \<longrightarrow> this' = this))
   \<and> (Result_after rst rthis = Inr rthis' \<and> \<not> Result_is_reassign rst \<longrightarrow>
      is_ok rthis' = is_ok rthis \<and> (\<not> Result_is_write_through rst \<longrightarrow> rthis' = rthis))"
  using Option_after_frame Result_after_frame by blast

theorem state_changes_only_by_reassignment_witness:
  "Option_after (call_unwrap_or (0::nat) :: (nat, unit, unit, unit) Option_statement)
       (Option_Some_copy 5) = Inr (Option_Some_copy 5)
   \<and> \<not> Option_is_reassign (call_unwrap_or (0::nat) :: (nat, unit, unit, unit) Option_statement)
   \<and> \<not> Option_is_write_through (call_unwrap_or (0::nat) :: (nat, unit, unit, unit) Option_statement)
   \<and> is_some (Option_Some_copy (5::nat)) = is_some (Option_Some_copy (5::nat))
   \<and> Result_after (write_through_unwrap_err True :: (nat, bool, unit, unit) Result_statement)
       (Result_copy_E False) = Inr (Result_copy_E True)
   \<and> \<not> Result_is_reassign (write_through_unwrap_err True :: (nat, bool, unit, unit) Result_statement)
   \<and> is_ok (Result_copy_E True :: (nat, bool) Result) = is_ok (Result_copy_E False :: (nat, bool) Result)"
proof -
  have a: "Option_after (call_unwrap_or (0::nat) :: (nat, unit, unit, unit) Option_statement)
       (Option_Some_copy 5) = Inr (Option_Some_copy 5)"
    by (simp add: Option_present_forms unwrap_or_def is_some_Option std_get_1_const_def
        unchanged_if_returns_def and_then_def)
  have b: "Result_after (write_through_unwrap_err True :: (nat, bool, unit, unit) Result_statement)
       (Result_copy_E False) = Inr (Result_copy_E True)"
    by (simp add: Result_copy_E_def unwrap_err_failure and_then_def)
  from a b
    state_changes_only_by_reassignment [where st = "call_unwrap_or (0::nat) :: (nat, unit, unit, unit) Option_statement"
      and this = "Option_Some_copy 5" and this' = "Option_Some_copy 5"
      and rst = "write_through_unwrap_err True :: (nat, bool, unit, unit) Result_statement"
      and rthis = "Result_copy_E False" and rthis' = "Result_copy_E True"]
  show ?thesis by simp
qed

end
